theory Spec2Isabelle
  imports Main
begin

section \<open>JavaScript values and the operations AvroHelper.ts applies to them\<close>

text \<open>
  The TypeScript interfaces of the helper (ConfluentSchema, RawAvroSchema, SchemaResponse,
  ConfluentSubject) are erased at run time, and the helper itself tells a RawAvroSchema from a
  ConfluentSchema by looking at properties (\<open>isRawAvroSchema\<close>). Its arguments are therefore
  modelled as JavaScript data values: a plain object is the association list of its own
  properties (the first binding of a key is the property), with \<open>Object.prototype\<close> as its
  prototype; an array is the list of its elements. Numbers are kept abstract (type \<open>'n\<close>);
  the two conversions the helper can apply to one are supplied by the host.
\<close>

datatype 'n jsval =
    JUndefined
  | JNull
  | JBool bool
  | JNum 'n
  | JStr string
  | JArr "'n jsval list"
  | JObj "(string \<times> 'n jsval) list"

text \<open>
  Everything the helper can throw: its own \<open>ConfluentSchemaRegistryArgumentError\<close> with the
  message, the \<open>TypeError\<close> of the language (a property read on \<open>undefined\<close> or \<open>null\<close>, an
  object that cannot be converted to a string), the \<open>SyntaxError\<close> of \<open>JSON.parse\<close>, and
  the plain \<open>Error\<close> that the avsc library throws.
\<close>

datatype error =
    ConfluentSchemaRegistryArgumentError string
  | TypeError
  | SyntaxError string
  | Error string

text \<open>A thrown error ends the evaluation; \<open>Inl\<close> is the error that was thrown.\<close>

definition andThen :: "error + 'a \<Rightarrow> ('a \<Rightarrow> error + 'b) \<Rightarrow> error + 'b" where
  "andThen r f = (case r of Inl e \<Rightarrow> Inl e | Inr x \<Rightarrow> f x)"

text \<open>
  \<open>v.k\<close>: a property read. It throws on \<open>undefined\<close> and \<open>null\<close>. The helper reads only the
  keys \<open>schema\<close>, \<open>name\<close>, \<open>type\<close> and \<open>namespace\<close>, which no built-in prototype of a data
  value defines, so the read is the own property or \<open>undefined\<close>.
\<close>

fun Get :: "'n jsval \<Rightarrow> string \<Rightarrow> error + 'n jsval" where
  "Get JUndefined k = Inl TypeError"
| "Get JNull k = Inl TypeError"
| "Get (JObj kvs) k = Inr (case map_of kvs k of None \<Rightarrow> JUndefined | Some v \<Rightarrow> v)"
| "Get v k = Inr JUndefined"

text \<open>\<open>v != null\<close>: the loose comparison holds of \<open>null\<close> and \<open>undefined\<close> alike.\<close>

fun notNull :: "'n jsval \<Rightarrow> bool" where
  "notNull JUndefined = False"
| "notNull JNull = False"
| "notNull v = True"

text \<open>\<open>ToBoolean\<close>, as applied by \<open>!v\<close>; the first argument is the host's test of a number
  (false for \<open>0\<close> and \<open>NaN\<close>).\<close>

fun ToBoolean :: "('n \<Rightarrow> bool) \<Rightarrow> 'n jsval \<Rightarrow> bool" where
  "ToBoolean nb JUndefined = False"
| "ToBoolean nb JNull = False"
| "ToBoolean nb (JBool b) = b"
| "ToBoolean nb (JNum n) = nb n"
| "ToBoolean nb (JStr s) = (s \<noteq> [])"
| "ToBoolean nb (JArr xs) = True"
| "ToBoolean nb (JObj kvs) = True"

text \<open>
  \<open>ToString\<close>, as applied by a template literal and by \<open>Array.prototype.join\<close> to each
  element; the first argument is the host's \<open>Number::toString\<close>. An array converts through
  \<open>join(",")\<close>. A plain object converts to \<open>[object Object]\<close> through
  \<open>Object.prototype.toString\<close>, unless it has an own property \<open>toString\<close>: a data value is
  not callable, \<open>valueOf\<close> then gives no primitive either, and the conversion throws.
  \<open>joinFrom\<close> is the loop of \<open>join\<close>: \<open>undefined\<close> and \<open>null\<close> elements contribute the empty
  string, and the separator stands between consecutive elements.
\<close>

fun ToString :: "('n \<Rightarrow> string) \<Rightarrow> 'n jsval \<Rightarrow> error + string"
  and joinFrom :: "('n \<Rightarrow> string) \<Rightarrow> string \<Rightarrow> 'n jsval list \<Rightarrow> error + string" where
  "ToString nts JUndefined = Inr ''undefined''"
| "ToString nts JNull = Inr ''null''"
| "ToString nts (JBool b) = Inr (if b then ''true'' else ''false'')"
| "ToString nts (JNum n) = Inr (nts n)"
| "ToString nts (JStr s) = Inr s"
| "ToString nts (JArr xs) = joinFrom nts '','' xs"
| "ToString nts (JObj kvs) =
     (if ''toString'' \<in> fst ` set kvs then Inl TypeError else Inr ''[object Object]'')"
| "joinFrom nts sep [] = Inr []"
| "joinFrom nts sep (x # xs) =
     (case (if notNull x then ToString nts x else Inr []) of
        Inl e \<Rightarrow> Inl e
      | Inr s \<Rightarrow>
          (case joinFrom nts sep xs of
             Inl e \<Rightarrow> Inl e
           | Inr r \<Rightarrow> Inr (if xs = [] then s else s @ sep @ r)))"

section \<open>The host: JSON.parse, avsc, numbers, and the AVRO tag\<close>

text \<open>
  A compiled schema is the \<open>Type\<close> object that avsc builds. The helper reads its \<open>name\<close>
  and nothing else; the encoder and decoder stay opaque (\<open>codec\<close>).
\<close>

record ('n, 'c) AvroSchema =
  name :: "'n jsval"
  codec :: 'c

text \<open>
  What the helper calls but does not define. \<open>JSON.parse\<close> and \<open>avro.Type.forSchema\<close> are
  library functions that return or throw; \<open>SchemaType.AVRO\<close> is a member of an enum declared
  in \<open>./@types\<close>. They are parameters of the model, and every theorem holds for every host.
\<close>

record ('n, 'o, 'c) host =
  JSON_parse :: "string \<Rightarrow> error + 'n jsval"
  Type_forSchema :: "'n jsval \<Rightarrow> 'o option \<Rightarrow> error + ('n, 'c) AvroSchema"
  Number_toString :: "'n \<Rightarrow> string"
  Number_toBoolean :: "'n \<Rightarrow> bool"
  SchemaType_AVRO :: "'n jsval"

text \<open>\<open>[x, y].join(separator)\<close>, with the separator a string.\<close>

definition Array_join :: "('n, 'o, 'c) host \<Rightarrow> 'n jsval list \<Rightarrow> string \<Rightarrow> error + string" where
  "Array_join h xs separator = joinFrom (Number_toString h) separator xs"

section \<open>AvroHelper\<close>

text \<open>
  \<open>getRawAvroSchema\<close>: \<open>typeof schema.schema === 'string' ? JSON.parse(schema.schema) :
  schema.schema\<close>; the cast to RawAvroSchema checks nothing.
\<close>

definition getRawAvroSchema :: "('n, 'o, 'c) host \<Rightarrow> 'n jsval \<Rightarrow> error + 'n jsval" where
  "getRawAvroSchema h schema =
     andThen (Get schema ''schema'')
       (\<lambda>s. case s of JStr text \<Rightarrow> JSON_parse h text | _ \<Rightarrow> Inr s)"

text \<open>\<open>isRawAvroSchema\<close>: \<open>schema.name != null && schema.type != null\<close>.\<close>

definition isRawAvroSchema :: "'n jsval \<Rightarrow> error + bool" where
  "isRawAvroSchema schema =
     andThen (Get schema ''name'')
       (\<lambda>n. if notNull n then andThen (Get schema ''type'') (\<lambda>t. Inr (notNull t))
            else Inr False)"

definition getAvroSchema ::
  "('n, 'o, 'c) host \<Rightarrow> 'n jsval \<Rightarrow> 'o option \<Rightarrow> error + ('n, 'c) AvroSchema" where
  "getAvroSchema h schema opts =
     andThen (isRawAvroSchema schema)
       (\<lambda>raw. andThen (if raw then Inr schema else getRawAvroSchema h schema)
         (\<lambda>rawSchema. Type_forSchema h rawSchema opts))"

definition validate :: "('n, 'o, 'c) host \<Rightarrow> ('n, 'c) AvroSchema \<Rightarrow> error + unit" where
  "validate h avroSchema =
     (if \<not> ToBoolean (Number_toBoolean h) (name avroSchema)
      then andThen (ToString (Number_toString h) (name avroSchema))
             (\<lambda>s. Inl (ConfluentSchemaRegistryArgumentError (''Invalid name: '' @ s)))
      else Inr ())"

text \<open>The subject is the object \<open>{ name: ... }\<close>; the compiled schema is not used.\<close>

definition getSubject ::
  "('n, 'o, 'c) host \<Rightarrow> 'n jsval \<Rightarrow> ('n, 'c) AvroSchema \<Rightarrow> string \<Rightarrow> error + 'n jsval" where
  "getSubject h schema avroSchema separator =
     andThen (getRawAvroSchema h schema)
       (\<lambda>rawSchema. andThen (Get rawSchema ''namespace'')
         (\<lambda>namespace.
            if \<not> ToBoolean (Number_toBoolean h) namespace
            then andThen (ToString (Number_toString h) namespace)
                   (\<lambda>s. Inl (ConfluentSchemaRegistryArgumentError (''Invalid namespace: '' @ s)))
            else andThen (Get rawSchema ''name'')
                   (\<lambda>nm. andThen (Array_join h [namespace, nm] separator)
                     (\<lambda>joined. Inr (JObj [(''name'', JStr joined)])))))"

text \<open>\<open>toConfluentSchema\<close>: the object \<open>{ type: SchemaType.AVRO, schema: data.schema }\<close>.\<close>

definition toConfluentSchema :: "('n, 'o, 'c) host \<Rightarrow> 'n jsval \<Rightarrow> error + 'n jsval" where
  "toConfluentSchema h data =
     andThen (Get data ''schema'')
       (\<lambda>s. Inr (JObj [(''type'', SchemaType_AVRO h), (''schema'', s)]))"

text \<open>
  \<open>getReferences\<close> does not read its argument (\<open>_schema\<close> in the source), and
  \<open>updateOptionsFromSchemaReferences\<close> does not read the referred schemas
  (\<open>_referredSchemas\<close>).
\<close>

definition getReferences :: "'n jsval \<Rightarrow> 'n jsval" where
  "getReferences schema = JUndefined"

definition updateOptionsFromSchemaReferences :: "'p \<Rightarrow> 'n jsval list \<Rightarrow> 'p" where
  "updateOptionsFromSchemaReferences options referredSchemas = options"

section \<open>A host for the examples\<close>

text \<open>
  The theorems below hold for every host. To run the helper on the examples of the
  documentation, this host knows how \<open>JSON.parse\<close> reads five texts (it throws on every other
  text), and its \<open>forSchema\<close> compiles an object whose \<open>type\<close> is \<open>record\<close> into a
  schema that carries the object's \<open>name\<close> (it throws on everything else). Numbers are
  integers, written in decimal.
\<close>

function decimal :: "nat \<Rightarrow> string" where
  "decimal n =
     (if n < 10 then [char_of (48 + n)]
      else decimal (n div 10) @ [char_of (48 + n mod 10)])"
  by pat_completeness auto
termination
  by (relation "measure id") auto

definition intToString :: "int \<Rightarrow> string" where
  "intToString i = (if i < 0 then ''-'' @ decimal (nat (- i)) else decimal (nat i))"

definition simpleText :: string where
  \<open>simpleText = ''{"type":"record","name":"Simple","namespace":"com.example","fields":[]}''\<close>

definition simpleRaw :: "int jsval" where
  "simpleRaw = JObj [(''type'', JStr ''record''), (''name'', JStr ''Simple''),
     (''namespace'', JStr ''com.example''), (''fields'', JArr [])]"

definition noNamespaceText :: string where
  \<open>noNamespaceText = ''{"type":"record","name":"Simple","fields":[]}''\<close>

definition noNamespaceRaw :: "int jsval" where
  "noNamespaceRaw = JObj [(''type'', JStr ''record''), (''name'', JStr ''Simple''),
     (''fields'', JArr [])]"

definition emptyNamespaceText :: string where
  \<open>emptyNamespaceText = ''{"type":"record","name":"Simple","namespace":"","fields":[]}''\<close>

definition emptyNamespaceRaw :: "int jsval" where
  "emptyNamespaceRaw = JObj [(''type'', JStr ''record''), (''name'', JStr ''Simple''),
     (''namespace'', JStr []), (''fields'', JArr [])]"

definition noNameText :: string where
  \<open>noNameText = ''{"type":"record","namespace":"com.example","fields":[]}''\<close>

definition noNameRaw :: "int jsval" where
  "noNameRaw = JObj [(''type'', JStr ''record''), (''namespace'', JStr ''com.example''),
     (''fields'', JArr [])]"

definition misspeltText :: string where
  \<open>misspeltText = ''{"type":"rekord","name":"Simple","fields":[]}''\<close>

definition misspeltRaw :: "int jsval" where
  "misspeltRaw = JObj [(''type'', JStr ''rekord''), (''name'', JStr ''Simple''),
     (''fields'', JArr [])]"

definition truncatedText :: string where
  \<open>truncatedText = ''{"type":"record","name":''\<close>

definition exampleParse :: "string \<Rightarrow> error + int jsval" where
  "exampleParse text =
     (if text = simpleText then Inr simpleRaw
      else if text = noNamespaceText then Inr noNamespaceRaw
      else if text = emptyNamespaceText then Inr emptyNamespaceRaw
      else if text = noNameText then Inr noNameRaw
      else if text = misspeltText then Inr misspeltRaw
      else Inl (SyntaxError ''Unexpected end of JSON input''))"

definition exampleForSchema :: "int jsval \<Rightarrow> unit option \<Rightarrow> error + (int, unit) AvroSchema" where
  "exampleForSchema raw opts =
     (case Get raw ''type'' of
        Inr (JStr ty) \<Rightarrow>
          (if ty = ''record''
           then (case Get raw ''name'' of
                   Inr n \<Rightarrow> Inr \<lparr>name = n, codec = ()\<rparr>
                 | Inl e \<Rightarrow> Inl e)
           else Inl (Error (''unknown type: '' @ ty)))
      | _ \<Rightarrow> Inl (Error ''invalid type''))"

definition exampleHost :: "(int, unit, unit) host" where
  "exampleHost = \<lparr>JSON_parse = exampleParse, Type_forSchema = exampleForSchema,
     Number_toString = intToString,
     Number_toBoolean = (\<lambda>n. n \<noteq> 0), SchemaType_AVRO = JStr ''AVRO''\<rparr>"

text \<open>The ConfluentSchema \<open>{ type: SchemaType.AVRO, schema: text }\<close>.\<close>

definition avroSchemaOf :: "string \<Rightarrow> int jsval" where
  "avroSchemaOf text = JObj [(''type'', JStr ''AVRO''), (''schema'', JStr text)]"

text \<open>
  A registry response whose schema text uses the type \<open>com.example.Customer\<close> of a referenced
  schema, and the same response without the reference; a ConfluentSchema that also carries a
  \<open>name\<close>, and a ConfluentSchema whose \<open>schema\<close> is an object instead of a text.
\<close>

definition referringText :: string where
  \<open>referringText = ''{"type":"record","name":"Order","namespace":"com.example","fields":[{"name":"customer","type":"com.example.Customer"}]}''\<close>

definition customerReference :: "int jsval" where
  "customerReference = JObj [(''name'', JStr ''com.example.Customer''),
     (''subject'', JStr ''customer''), (''version'', JNum 1)]"

definition exampleResponse :: "int jsval" where
  "exampleResponse = JObj [(''schema'', JStr referringText), (''schemaType'', JStr ''AVRO''),
     (''references'', JArr [customerReference])]"

definition responseWithoutReferences :: "int jsval" where
  "responseWithoutReferences = JObj [(''schema'', JStr referringText)]"

definition namedWrapper :: "int jsval" where
  "namedWrapper = JObj [(''type'', JStr ''AVRO''), (''name'', JStr ''Simple''),
     (''schema'', JStr simpleText)]"

definition objectWrapper :: "int jsval" where
  "objectWrapper = JObj [(''type'', JStr ''AVRO''), (''schema'', simpleRaw)]"

section \<open>Basic facts\<close>

lemma andThen_Inr [simp]: "andThen (Inr x) f = f x"
  by (simp add: andThen_def)

lemma andThen_Inl [simp]: "andThen (Inl e) f = Inl e"
  by (simp add: andThen_def)

lemma falsy_ToString:
  "\<not> ToBoolean nb v \<Longrightarrow> \<exists>s. ToString nts v = Inr s"
  by (cases v) simp_all

text \<open>\<open>String([1, null, ["a", "b"], {}, true])\<close> is \<open>1,,a,b,[object Object],true\<close>.\<close>

lemma ToString_array_example:
  "ToString intToString (JArr [JNum 1, JNull, JArr [JStr ''a'', JStr ''b''], JObj [], JBool True])
     = Inr ''1,,a,b,[object Object],true''"
  by code_simp

lemma getRawAvroSchema_text:
  "Get schema ''schema'' = Inr (JStr text) \<Longrightarrow> getRawAvroSchema h schema = JSON_parse h text"
  by (simp add: getRawAvroSchema_def)

lemma getRawAvroSchema_object:
  "Get schema ''schema'' = Inr s \<Longrightarrow> (\<And>text. s \<noteq> JStr text) \<Longrightarrow>
   getRawAvroSchema h schema = Inr s"
  by (cases s) (auto simp add: getRawAvroSchema_def)

lemma join_two_strings:
  "Array_join h [JStr a, JStr b] sep = Inr (a @ sep @ b)"
  by (simp add: Array_join_def)

lemma join_string_undefined:
  "Array_join h [JStr a, JUndefined] sep = Inr (a @ sep)"
  by (simp add: Array_join_def)

text \<open>
  The subject of a raw schema, whichever way it was obtained: the check of the namespace
  and then the join.
\<close>

lemma getSubject_of_raw:
  assumes "getRawAvroSchema h schema = Inr rawSchema"
    and "Get rawSchema ''namespace'' = Inr namespace"
  shows "getSubject h schema avroSchema sep =
     (if \<not> ToBoolean (Number_toBoolean h) namespace
      then andThen (ToString (Number_toString h) namespace)
             (\<lambda>s. Inl (ConfluentSchemaRegistryArgumentError (''Invalid namespace: '' @ s)))
      else andThen (Get rawSchema ''name'')
             (\<lambda>nm. andThen (Array_join h [namespace, nm] sep)
               (\<lambda>joined. Inr (JObj [(''name'', JStr joined)]))))"
  using assms by (simp add: getSubject_def)

text \<open>
  Every value that \<open>!v\<close> rejects as namespace (\<open>undefined\<close>, \<open>null\<close>, \<open>false\<close>, a zero, the
  empty string) ends in the argument error. A text that parses to \<open>null\<close> ends in the
  \<open>TypeError\<close> of the property read, and a text that does not parse in the error of
  \<open>JSON.parse\<close>: the check of the namespace is not reached.
\<close>

lemma getSubject_falsy_namespace:
  assumes "getRawAvroSchema h schema = Inr rawSchema"
    and "Get rawSchema ''namespace'' = Inr namespace"
    and "\<not> ToBoolean (Number_toBoolean h) namespace"
  shows "\<exists>s. getSubject h schema avroSchema separator
           = Inl (ConfluentSchemaRegistryArgumentError (''Invalid namespace: '' @ s))"
proof -
  obtain s where "ToString (Number_toString h) namespace = Inr s"
    using assms(3) falsy_ToString by blast
  then show ?thesis
    using assms by (simp add: getSubject_of_raw)
qed

lemma getSubject_of_null:
  assumes "getRawAvroSchema h schema = Inr JNull"
  shows "getSubject h schema avroSchema separator = Inl TypeError"
  using assms by (simp add: getSubject_def)

lemma getSubject_parse_error:
  assumes "Get schema ''schema'' = Inr (JStr text)"
    and "JSON_parse h text = Inl e"
  shows "getSubject h schema avroSchema separator = Inl e"
  using assms by (simp add: getSubject_def getRawAvroSchema_text)

text \<open>\<open>validate\<close> returns exactly for the names that \<open>!v\<close> accepts.\<close>

lemma validate_ok_iff:
  "validate h a = Inr () \<longleftrightarrow> ToBoolean (Number_toBoolean h) (name a)"
proof (cases "ToBoolean (Number_toBoolean h) (name a)")
  case True
  then show ?thesis by (simp add: validate_def)
next
  case False
  then obtain s where "ToString (Number_toString h) (name a) = Inr s"
    using falsy_ToString by blast
  with False show ?thesis by (simp add: validate_def)
qed

lemma exampleParse_simps [simp]:
  "exampleParse simpleText = Inr simpleRaw"
  "exampleParse noNamespaceText = Inr noNamespaceRaw"
  "exampleParse emptyNamespaceText = Inr emptyNamespaceRaw"
  "exampleParse noNameText = Inr noNameRaw"
  "exampleParse misspeltText = Inr misspeltRaw"
  "exampleParse truncatedText = Inl (SyntaxError ''Unexpected end of JSON input'')"
  by (simp_all add: exampleParse_def simpleText_def noNamespaceText_def
      emptyNamespaceText_def noNameText_def misspeltText_def truncatedText_def)

lemma exampleHost_simps [simp]:
  "JSON_parse exampleHost = exampleParse"
  "Type_forSchema exampleHost = exampleForSchema"
  "Number_toBoolean exampleHost n = (n \<noteq> 0)"
  "SchemaType_AVRO exampleHost = JStr ''AVRO''"
  by (simp_all add: exampleHost_def)

lemma Get_avroSchemaOf [simp]:
  "Get (avroSchemaOf text) ''schema'' = Inr (JStr text)"
  "Get (avroSchemaOf text) ''name'' = Inr JUndefined"
  "Get (avroSchemaOf text) ''type'' = Inr (JStr ''AVRO'')"
  by (simp_all add: avroSchemaOf_def)

section \<open>Subject derivation\<close>

text \<open>
  C1. For a ConfluentSchema whose schema text parses to a schema with the non-empty namespace
  \<open>namespace\<close> and the name \<open>nm\<close>, \<open>getSubject\<close> returns the subject whose name is the
  namespace, the separator and the name, in this order. For the schema with namespace
  \<open>com.example\<close> and name \<open>Simple\<close>, the separator \<open>.\<close> gives \<open>com.example.Simple\<close> and
  the separator \<open>-\<close> gives \<open>com.example-Simple\<close>.
\<close>

theorem getSubject_joins_namespace_and_name:
  assumes "Get schema ''schema'' = Inr (JStr text)"
    and "JSON_parse h text = Inr rawSchema"
    and "Get rawSchema ''namespace'' = Inr (JStr namespace)"
    and "namespace \<noteq> []"
    and "Get rawSchema ''name'' = Inr (JStr nm)"
  shows "getSubject h schema avroSchema separator =
     Inr (JObj [(''name'', JStr (namespace @ separator @ nm))])"
proof -
  have "getRawAvroSchema h schema = Inr rawSchema"
    using assms(1,2) by (simp add: getRawAvroSchema_text)
  then show ?thesis
    using assms(3,4,5) by (simp add: getSubject_of_raw join_two_strings)
qed

theorem getSubject_joins_namespace_and_name_witness:
  "Get (avroSchemaOf simpleText) ''schema'' = Inr (JStr simpleText)
   \<and> JSON_parse exampleHost simpleText = Inr simpleRaw
   \<and> Get simpleRaw ''namespace'' = Inr (JStr ''com.example'')
   \<and> ''com.example'' \<noteq> []
   \<and> Get simpleRaw ''name'' = Inr (JStr ''Simple'')
   \<and> getSubject exampleHost (avroSchemaOf simpleText) \<lparr>name = JStr ''com.example.Simple'', codec = ()\<rparr> ''.''
       = Inr (JObj [(''name'', JStr ''com.example.Simple'')])
   \<and> getSubject exampleHost (avroSchemaOf simpleText) \<lparr>name = JStr ''com.example.Simple'', codec = ()\<rparr> ''-''
       = Inr (JObj [(''name'', JStr ''com.example-Simple'')])"
proof -
  have a: "Get (avroSchemaOf simpleText) ''schema'' = Inr (JStr simpleText)" by simp
  have b: "JSON_parse exampleHost simpleText = Inr simpleRaw" by simp
  have c: "Get simpleRaw ''namespace'' = Inr (JStr ''com.example'')" by (simp add: simpleRaw_def)
  have d: "''com.example'' \<noteq> []" by simp
  have e: "Get simpleRaw ''name'' = Inr (JStr ''Simple'')" by (simp add: simpleRaw_def)
  show ?thesis
    using a b c e
      getSubject_joins_namespace_and_name [OF a b c d e, where separator = "''.''"]
      getSubject_joins_namespace_and_name [OF a b c d e, where separator = "''-''"]
    by simp
qed

text \<open>
  C2. For a ConfluentSchema whose schema text parses to a schema without a \<open>namespace\<close>
  property, or with the empty string as namespace, \<open>getSubject\<close> throws the helper's
  \<open>ConfluentSchemaRegistryArgumentError\<close> (the error the specification calls
  MissingMetadataError) with the message \<open>Invalid namespace: \<close> followed by the value, and
  returns no subject. The parsed schema is a value with properties: on \<open>null\<close> the property
  read itself throws.
\<close>

theorem getSubject_missing_namespace:
  assumes "Get schema ''schema'' = Inr (JStr text)"
    and "JSON_parse h text = Inr rawSchema"
    and "Get rawSchema ''namespace'' = Inr namespace"
    and "namespace = JUndefined \<or> namespace = JStr []"
  shows "getSubject h schema avroSchema separator =
     Inl (ConfluentSchemaRegistryArgumentError
       (''Invalid namespace: '' @ (if namespace = JUndefined then ''undefined'' else [])))"
proof -
  have "getRawAvroSchema h schema = Inr rawSchema"
    using assms(1,2) by (simp add: getRawAvroSchema_text)
  then show ?thesis
    using assms(3,4) by (auto simp add: getSubject_of_raw)
qed

theorem getSubject_missing_namespace_witness:
  "Get (avroSchemaOf noNamespaceText) ''schema'' = Inr (JStr noNamespaceText)
   \<and> JSON_parse exampleHost noNamespaceText = Inr noNamespaceRaw
   \<and> Get noNamespaceRaw ''namespace'' = Inr JUndefined
   \<and> getSubject exampleHost (avroSchemaOf noNamespaceText) \<lparr>name = JStr ''Simple'', codec = ()\<rparr> ''.''
       = Inl (ConfluentSchemaRegistryArgumentError ''Invalid namespace: undefined'')
   \<and> Get (avroSchemaOf emptyNamespaceText) ''schema'' = Inr (JStr emptyNamespaceText)
   \<and> JSON_parse exampleHost emptyNamespaceText = Inr emptyNamespaceRaw
   \<and> Get emptyNamespaceRaw ''namespace'' = Inr (JStr [])
   \<and> getSubject exampleHost (avroSchemaOf emptyNamespaceText) \<lparr>name = JStr ''Simple'', codec = ()\<rparr> ''.''
       = Inl (ConfluentSchemaRegistryArgumentError ''Invalid namespace: '')"
proof -
  have a: "Get (avroSchemaOf noNamespaceText) ''schema'' = Inr (JStr noNamespaceText)" by simp
  have b: "JSON_parse exampleHost noNamespaceText = Inr noNamespaceRaw" by simp
  have c: "Get noNamespaceRaw ''namespace'' = Inr (JUndefined :: int jsval)"
    by (simp add: noNamespaceRaw_def)
  have d: "(JUndefined :: int jsval) = JUndefined \<or> (JUndefined :: int jsval) = JStr []" by simp
  have a': "Get (avroSchemaOf emptyNamespaceText) ''schema'' = Inr (JStr emptyNamespaceText)"
    by simp
  have b': "JSON_parse exampleHost emptyNamespaceText = Inr emptyNamespaceRaw" by simp
  have c': "Get emptyNamespaceRaw ''namespace'' = Inr (JStr [])"
    by (simp add: emptyNamespaceRaw_def)
  have d': "(JStr [] :: int jsval) = JUndefined \<or> (JStr [] :: int jsval) = JStr []" by simp
  show ?thesis
    using a b c a' b' c'
      getSubject_missing_namespace [OF a b c d, where separator = "''.''"]
      getSubject_missing_namespace [OF a' b' c' d', where separator = "''.''"]
    by simp
qed

text \<open>
  C10. Only the namespace is checked. For a ConfluentSchema whose schema text parses to a
  schema with a non-empty namespace and no \<open>name\<close> property, \<open>getSubject\<close> does not throw:
  the subject's name is the namespace followed by the separator and nothing else.
\<close>

theorem getSubject_missing_name:
  assumes "Get schema ''schema'' = Inr (JStr text)"
    and "JSON_parse h text = Inr rawSchema"
    and "Get rawSchema ''namespace'' = Inr (JStr namespace)"
    and "namespace \<noteq> []"
    and "Get rawSchema ''name'' = Inr JUndefined"
  shows "getSubject h schema avroSchema separator =
     Inr (JObj [(''name'', JStr (namespace @ separator))])"
proof -
  have "getRawAvroSchema h schema = Inr rawSchema"
    using assms(1,2) by (simp add: getRawAvroSchema_text)
  then show ?thesis
    using assms(3,4,5) by (simp add: getSubject_of_raw join_string_undefined)
qed

theorem getSubject_missing_name_witness:
  "Get (avroSchemaOf noNameText) ''schema'' = Inr (JStr noNameText)
   \<and> JSON_parse exampleHost noNameText = Inr noNameRaw
   \<and> Get noNameRaw ''namespace'' = Inr (JStr ''com.example'')
   \<and> ''com.example'' \<noteq> []
   \<and> Get noNameRaw ''name'' = Inr JUndefined
   \<and> getSubject exampleHost (avroSchemaOf noNameText) \<lparr>name = JUndefined, codec = ()\<rparr> ''.''
       = Inr (JObj [(''name'', JStr ''com.example.'')])"
proof -
  have a: "Get (avroSchemaOf noNameText) ''schema'' = Inr (JStr noNameText)" by simp
  have b: "JSON_parse exampleHost noNameText = Inr noNameRaw" by simp
  have c: "Get noNameRaw ''namespace'' = Inr (JStr ''com.example'')"
    by (simp add: noNameRaw_def)
  have d: "''com.example'' \<noteq> []" by simp
  have e: "Get noNameRaw ''name'' = Inr JUndefined" by (simp add: noNameRaw_def)
  show ?thesis
    using a b c e getSubject_missing_name [OF a b c d e, where separator = "''.''"]
    by simp
qed

text \<open>
  C8. The subject depends on the ConfluentSchema and the separator alone: two calls that
  differ only in the compiled schema return the same subject or throw the same error.
\<close>

theorem getSubject_ignores_avroSchema:
  "getSubject h schema avroSchema separator = getSubject h schema avroSchema' separator"
  by (simp add: getSubject_def)

section \<open>Validation\<close>

text \<open>
  C3. The name of a compiled schema is a string, or \<open>undefined\<close> for a type without a name.
  \<open>validate\<close> returns when the name is a non-empty string, and in every other case, and
  only then, throws the helper's \<open>ConfluentSchemaRegistryArgumentError\<close> (the error the
  specification calls InvalidSchemaError) with the message \<open>Invalid name: \<close> followed by
  the name.
\<close>

theorem validate_requires_name:
  assumes "name avroSchema = JUndefined \<or> name avroSchema = JStr s"
  shows "(name avroSchema = JStr s \<and> s \<noteq> [] \<longrightarrow> validate h avroSchema = Inr ())
    \<and> (\<not> (name avroSchema = JStr s \<and> s \<noteq> []) \<longrightarrow>
         validate h avroSchema = Inl (ConfluentSchemaRegistryArgumentError
           (''Invalid name: '' @ (if name avroSchema = JUndefined then ''undefined'' else []))))"
  using assms by (auto simp add: validate_def)

theorem validate_requires_name_witness:
  "validate exampleHost \<lparr>name = JStr ''com.example.Simple'', codec = ()\<rparr> = Inr ()
   \<and> validate exampleHost \<lparr>name = JUndefined, codec = ()\<rparr>
       = Inl (ConfluentSchemaRegistryArgumentError ''Invalid name: undefined'')
   \<and> validate exampleHost \<lparr>name = JStr [], codec = ()\<rparr>
       = Inl (ConfluentSchemaRegistryArgumentError ''Invalid name: '')"
proof -
  have a: "name \<lparr>name = JStr ''com.example.Simple'' :: int jsval, codec = ()\<rparr> = JUndefined
      \<or> name \<lparr>name = JStr ''com.example.Simple'' :: int jsval, codec = ()\<rparr> = JStr ''com.example.Simple''"
    by simp
  have b: "name \<lparr>name = JUndefined :: int jsval, codec = ()\<rparr> = JUndefined
      \<or> name \<lparr>name = JUndefined :: int jsval, codec = ()\<rparr> = JStr []"
    by simp
  have c: "name \<lparr>name = JStr [] :: int jsval, codec = ()\<rparr> = JUndefined
      \<or> name \<lparr>name = JStr [] :: int jsval, codec = ()\<rparr> = JStr []"
    by simp
  show ?thesis
    using validate_requires_name [OF a, where h = exampleHost]
      validate_requires_name [OF b, where h = exampleHost]
      validate_requires_name [OF c, where h = exampleHost]
    by simp
qed

section \<open>Compilation\<close>

text \<open>
  C4. For a ConfluentSchema with a \<open>schema\<close> text whose \<open>name\<close> and \<open>type\<close> are not both
  set (a \<open>name\<close> is not part of a ConfluentSchema), \<open>getAvroSchema\<close> fails with the error
  of \<open>JSON.parse\<close> when the text is not JSON, fails with the error of avsc when the parsed
  text is not a schema that avsc compiles, and otherwise returns the schema that avsc
  compiled (these errors are what the specification calls SchemaCompilationError; the
  helper catches and wraps nothing).
\<close>

theorem getAvroSchema_compiles_schema_text:
  assumes "Get schema ''name'' = Inr n"
    and "Get schema ''type'' = Inr t"
    and "\<not> (notNull n \<and> notNull t)"
    and "Get schema ''schema'' = Inr (JStr text)"
  shows "(JSON_parse h text = Inl e \<longrightarrow> getAvroSchema h schema opts = Inl e)
    \<and> (JSON_parse h text = Inr rawSchema \<and> Type_forSchema h rawSchema opts = Inl e' \<longrightarrow>
         getAvroSchema h schema opts = Inl e')
    \<and> (JSON_parse h text = Inr rawSchema \<and> Type_forSchema h rawSchema opts = Inr compiled \<longrightarrow>
         getAvroSchema h schema opts = Inr compiled)"
  using assms
  by (auto simp add: getAvroSchema_def isRawAvroSchema_def getRawAvroSchema_text)

theorem getAvroSchema_compiles_schema_text_witness:
  "Get (avroSchemaOf truncatedText) ''name'' = Inr JUndefined
   \<and> Get (avroSchemaOf truncatedText) ''type'' = Inr (JStr ''AVRO'')
   \<and> \<not> (notNull (JUndefined :: int jsval) \<and> notNull (JStr ''AVRO'' :: int jsval))
   \<and> Get (avroSchemaOf truncatedText) ''schema'' = Inr (JStr truncatedText)
   \<and> JSON_parse exampleHost truncatedText = Inl (SyntaxError ''Unexpected end of JSON input'')
   \<and> getAvroSchema exampleHost (avroSchemaOf truncatedText) None
       = Inl (SyntaxError ''Unexpected end of JSON input'')
   \<and> JSON_parse exampleHost misspeltText = Inr misspeltRaw
   \<and> Type_forSchema exampleHost misspeltRaw None = Inl (Error ''unknown type: rekord'')
   \<and> getAvroSchema exampleHost (avroSchemaOf misspeltText) None = Inl (Error ''unknown type: rekord'')
   \<and> JSON_parse exampleHost simpleText = Inr simpleRaw
   \<and> Type_forSchema exampleHost simpleRaw None = Inr \<lparr>name = JStr ''Simple'', codec = ()\<rparr>
   \<and> getAvroSchema exampleHost (avroSchemaOf simpleText) None
       = Inr \<lparr>name = JStr ''Simple'', codec = ()\<rparr>"
proof -
  have n: "Get (avroSchemaOf tx) ''name'' = Inr JUndefined" for tx by simp
  have t: "Get (avroSchemaOf tx) ''type'' = Inr (JStr ''AVRO'')" for tx by simp
  have u: "\<not> (notNull (JUndefined :: int jsval) \<and> notNull (JStr ''AVRO'' :: int jsval))" by simp
  have s: "Get (avroSchemaOf tx) ''schema'' = Inr (JStr tx)" for tx by simp
  have p1: "JSON_parse exampleHost truncatedText = Inl (SyntaxError ''Unexpected end of JSON input'')"
    by simp
  have p2: "JSON_parse exampleHost misspeltText = Inr misspeltRaw" by simp
  have c2: "Type_forSchema exampleHost misspeltRaw None = Inl (Error ''unknown type: rekord'')"
    by (simp add: exampleForSchema_def misspeltRaw_def)
  have p3: "JSON_parse exampleHost simpleText = Inr simpleRaw" by simp
  have c3: "Type_forSchema exampleHost simpleRaw None = Inr \<lparr>name = JStr ''Simple'', codec = ()\<rparr>"
    by (simp add: exampleForSchema_def simpleRaw_def)
  show ?thesis
    using n t s p1 p2 c2 p3 c3
      getAvroSchema_compiles_schema_text [OF n [of truncatedText] t [of truncatedText] u
        s [of truncatedText],
        where h = exampleHost and opts = None
          and e = "SyntaxError ''Unexpected end of JSON input''"]
      getAvroSchema_compiles_schema_text [OF n [of misspeltText] t [of misspeltText] u
        s [of misspeltText],
        where h = exampleHost and opts = None and rawSchema = misspeltRaw
          and e' = "Error ''unknown type: rekord''"]
      getAvroSchema_compiles_schema_text [OF n [of simpleText] t [of simpleText] u
        s [of simpleText],
        where h = exampleHost and opts = None and rawSchema = simpleRaw
          and compiled = "\<lparr>name = JStr ''Simple'', codec = ()\<rparr>"]
    by simp
qed

text \<open>
  Without the condition on \<open>name\<close> and \<open>type\<close> the statement fails. The text of
  \<open>namedWrapper\<close> is JSON and avsc compiles what it parses to, but the wrapper has a \<open>name\<close>
  and a \<open>type\<close>, so \<open>getAvroSchema\<close> hands the wrapper itself to avsc, which throws.
\<close>

theorem getAvroSchema_compiles_schema_text_counterexample:
  "Get namedWrapper ''schema'' = Inr (JStr simpleText)
   \<and> JSON_parse exampleHost simpleText = Inr simpleRaw
   \<and> Type_forSchema exampleHost simpleRaw None = Inr \<lparr>name = JStr ''Simple'', codec = ()\<rparr>
   \<and> getAvroSchema exampleHost namedWrapper None \<noteq> Inr \<lparr>name = JStr ''Simple'', codec = ()\<rparr>
   \<and> getAvroSchema exampleHost namedWrapper None = Inl (Error ''unknown type: AVRO'')"
  by (simp add: getAvroSchema_def isRawAvroSchema_def namedWrapper_def exampleForSchema_def
      simpleRaw_def)

text \<open>
  C9. \<open>getAvroSchema\<close> takes its argument for a raw Avro schema exactly when its \<open>name\<close> and
  its \<open>type\<close> are both neither \<open>null\<close> nor \<open>undefined\<close>, and then hands the argument itself
  to avsc. Otherwise it takes the \<open>schema\<close> property, parsed by \<open>JSON.parse\<close> when it is a
  string and as it is when it is not, and hands that to avsc. So a ConfluentSchema that
  also has a \<open>name\<close> is compiled as if it were the raw schema: for \<open>namedWrapper\<close> avsc
  gets the wrapper, not the schema text it wraps.
\<close>

theorem getAvroSchema_raw_or_wrapped:
  assumes "Get schema ''name'' = Inr n"
    and "Get schema ''type'' = Inr t"
    and "Get schema ''schema'' = Inr s"
  shows "(notNull n \<and> notNull t \<longrightarrow>
          getAvroSchema h schema opts = Type_forSchema h schema opts)
    \<and> (\<not> (notNull n \<and> notNull t) \<and> s = JStr schemaText \<longrightarrow>
          getAvroSchema h schema opts
            = andThen (JSON_parse h schemaText) (\<lambda>rawSchema. Type_forSchema h rawSchema opts))
    \<and> (\<not> (notNull n \<and> notNull t) \<and> (\<forall>text'. s \<noteq> JStr text') \<longrightarrow>
          getAvroSchema h schema opts = Type_forSchema h s opts)"
  using assms
  by (auto simp add: getAvroSchema_def isRawAvroSchema_def getRawAvroSchema_text
      getRawAvroSchema_object)

theorem getAvroSchema_raw_or_wrapped_witness:
  "Get namedWrapper ''name'' = Inr (JStr ''Simple'')
   \<and> Get namedWrapper ''type'' = Inr (JStr ''AVRO'')
   \<and> Get namedWrapper ''schema'' = Inr (JStr simpleText)
   \<and> notNull (JStr ''Simple'' :: int jsval) \<and> notNull (JStr ''AVRO'' :: int jsval)
   \<and> getAvroSchema exampleHost namedWrapper None = Type_forSchema exampleHost namedWrapper None
   \<and> getAvroSchema exampleHost namedWrapper None = Inl (Error ''unknown type: AVRO'')
   \<and> Get (avroSchemaOf simpleText) ''name'' = Inr JUndefined
   \<and> \<not> notNull (JUndefined :: int jsval)
   \<and> getAvroSchema exampleHost (avroSchemaOf simpleText) None
       = Inr \<lparr>name = JStr ''Simple'', codec = ()\<rparr>
   \<and> Get objectWrapper ''name'' = Inr JUndefined
   \<and> Get objectWrapper ''schema'' = Inr simpleRaw
   \<and> (\<forall>text'. simpleRaw \<noteq> JStr text')
   \<and> getAvroSchema exampleHost objectWrapper None = Type_forSchema exampleHost simpleRaw None
   \<and> getAvroSchema exampleHost objectWrapper None = Inr \<lparr>name = JStr ''Simple'', codec = ()\<rparr>"
proof -
  have n1: "Get namedWrapper ''name'' = Inr (JStr ''Simple'')" by (simp add: namedWrapper_def)
  have t1: "Get namedWrapper ''type'' = Inr (JStr ''AVRO'')" by (simp add: namedWrapper_def)
  have s1: "Get namedWrapper ''schema'' = Inr (JStr simpleText)" by (simp add: namedWrapper_def)
  have n2: "Get (avroSchemaOf simpleText) ''name'' = Inr JUndefined" by simp
  have t2: "Get (avroSchemaOf simpleText) ''type'' = Inr (JStr ''AVRO'')" by simp
  have s2: "Get (avroSchemaOf simpleText) ''schema'' = Inr (JStr simpleText)" by simp
  have n3: "Get objectWrapper ''name'' = Inr JUndefined" by (simp add: objectWrapper_def)
  have t3: "Get objectWrapper ''type'' = Inr (JStr ''AVRO'')" by (simp add: objectWrapper_def)
  have s3: "Get objectWrapper ''schema'' = Inr simpleRaw" by (simp add: objectWrapper_def)
  have o3: "\<forall>text'. simpleRaw \<noteq> JStr text'" by (simp add: simpleRaw_def)
  have c1: "Type_forSchema exampleHost namedWrapper None = Inl (Error ''unknown type: AVRO'')"
    by (simp add: exampleForSchema_def namedWrapper_def)
  have c3: "Type_forSchema exampleHost simpleRaw None = Inr \<lparr>name = JStr ''Simple'', codec = ()\<rparr>"
    by (simp add: exampleForSchema_def simpleRaw_def)
  show ?thesis
    using n1 t1 s1 n2 n3 s3 o3 c1 c3
      getAvroSchema_raw_or_wrapped [OF n1 t1 s1, where h = exampleHost and opts = None]
      getAvroSchema_raw_or_wrapped [OF n2 t2 s2, where h = exampleHost and opts = None
        and schemaText = simpleText]
      getAvroSchema_raw_or_wrapped [OF n3 t3 s3, where h = exampleHost and opts = None]
    by simp
qed

section \<open>Registry responses and references\<close>

text \<open>
  C7. For a registry response, \<open>toConfluentSchema\<close> returns a ConfluentSchema whose \<open>type\<close>
  is \<open>SchemaType.AVRO\<close> and whose \<open>schema\<close> is the \<open>schema\<close> of the response, as it is.
  References are not resolved: the result has no \<open>references\<close>, and every response with the
  same \<open>schema\<close> gives the same result, whatever its references are.
\<close>

theorem toConfluentSchema_type_and_text:
  assumes "Get data ''schema'' = Inr schemaText"
  shows "\<exists>confluentSchema. toConfluentSchema h data = Inr confluentSchema
    \<and> Get confluentSchema ''type'' = Inr (SchemaType_AVRO h)
    \<and> Get confluentSchema ''schema'' = Inr schemaText
    \<and> Get confluentSchema ''references'' = Inr JUndefined
    \<and> (\<forall>data'. Get data' ''schema'' = Inr schemaText \<longrightarrow>
          toConfluentSchema h data' = Inr confluentSchema)"
  using assms by (simp add: toConfluentSchema_def)

theorem toConfluentSchema_type_and_text_witness:
  "Get exampleResponse ''schema'' = Inr (JStr referringText)
   \<and> Get responseWithoutReferences ''schema'' = Inr (JStr referringText)
   \<and> toConfluentSchema exampleHost exampleResponse = Inr (avroSchemaOf referringText)
   \<and> toConfluentSchema exampleHost responseWithoutReferences = Inr (avroSchemaOf referringText)"
proof -
  have a: "Get exampleResponse ''schema'' = Inr (JStr referringText)"
    by (simp add: exampleResponse_def)
  have b: "Get responseWithoutReferences ''schema'' = Inr (JStr referringText)"
    by (simp add: responseWithoutReferences_def)
  from toConfluentSchema_type_and_text [OF a, where h = exampleHost]
  obtain confluentSchema where
    r: "toConfluentSchema exampleHost exampleResponse = Inr confluentSchema"
    and ty: "Get confluentSchema ''type'' = Inr (SchemaType_AVRO exampleHost)"
    and sc: "Get confluentSchema ''schema'' = Inr (JStr referringText)"
    and al: "\<forall>data'. Get data' ''schema'' = Inr (JStr referringText) \<longrightarrow>
          toConfluentSchema exampleHost data' = Inr confluentSchema"
    by blast
  from al b have r': "toConfluentSchema exampleHost responseWithoutReferences = Inr confluentSchema"
    by blast
  have "toConfluentSchema exampleHost exampleResponse = Inr (avroSchemaOf referringText)"
    using a by (simp add: toConfluentSchema_def avroSchemaOf_def)
  with r r' a b show ?thesis by simp
qed

text \<open>
  The schema text of \<open>exampleResponse\<close> uses the type \<open>com.example.Customer\<close>, which the
  response declares as a reference. The ConfluentSchema that comes back has the text
  unchanged and no references, and is the one that comes back without the reference: the
  reference is not resolved into the text, it is lost.
\<close>

theorem toConfluentSchema_type_and_text_counterexample:
  "Get exampleResponse ''references'' = Inr (JArr [customerReference])
   \<and> toConfluentSchema exampleHost exampleResponse
       = Inr (JObj [(''type'', JStr ''AVRO''), (''schema'', JStr referringText)])
   \<and> toConfluentSchema exampleHost exampleResponse
       = toConfluentSchema exampleHost responseWithoutReferences"
  by (simp add: toConfluentSchema_def exampleResponse_def responseWithoutReferences_def)

text \<open>
  C5. \<open>getReferences\<close> returns \<open>undefined\<close> for every schema: the Avro helper reports no
  references.
\<close>

theorem getReferences_undefined: "getReferences schema = JUndefined"
  by (simp add: getReferences_def)

text \<open>
  C6. \<open>updateOptionsFromSchemaReferences\<close> returns the options it was given, whatever the
  referred schemas are.
\<close>

theorem updateOptionsFromSchemaReferences_identity:
  "updateOptionsFromSchemaReferences options referredSchemas = options"
  by (simp add: updateOptionsFromSchemaReferences_def)

end
